theory Spec2Isabelle
  imports Complex_Main "HOL-Library.AList" "HOL-Library.Word"
begin

section \<open>Errors\<close>

text \<open>
  Every way the Python code stops without a result is a value of \<open>error\<close>:
  the exceptions it raises or lets escape, and the \<open>sys.exit(1)\<close> calls of the two
  \<open>main\<close> functions, one constructor for each message they print.
\<close>

datatype error =
    ValueError
  | ZeroDivisionError
  | IndexError
  | KeyError
  | OverflowError
  | NoValidSymbols
  | InputEmpty
  | EncodingFailed
  | FileTooShort
  | UndecodableBitstream

section \<open>Repetition code (ori/new\_src/coding.py, ori/new\_src/decoding.py)\<close>

text \<open>
  \<open>RepetitionCodeEncoder.validate_bit_string\<close>: false on the empty string, otherwise
  whether every character is one of \<open>0\<close> and \<open>1\<close>.
\<close>

definition validate_bit_string :: "string \<Rightarrow> bool" where
  "validate_bit_string bit_string =
     (if bit_string = [] then False
      else list_all (\<lambda>c. c \<in> set ''01'') bit_string)"

text \<open>
  \<open>RepetitionCodeEncoder.encode_bit_string\<close>, with \<open>self.N\<close> passed as \<open>N\<close>
  (the constructor sets it to 3): raises ValueError on an invalid input, otherwise joins
  \<open>bit * N\<close> over the characters.
\<close>

definition encode_bit_string :: "nat \<Rightarrow> string \<Rightarrow> error + string" where
  "encode_bit_string N bit_string =
     (if \<not> validate_bit_string bit_string then Inl ValueError
      else Inr (concat (map (\<lambda>bit. replicate N bit) bit_string)))"

definition repetition_N :: nat where
  "repetition_N = 3"

text \<open>The vote on one group: the body of the loop of \<open>majority_vote_decode\<close>.\<close>

definition vote :: "string \<Rightarrow> char" where
  "vote grp =
     (let count_0 = count_list grp (CHR ''0'');
          count_1 = count_list grp (CHR ''1'')
      in if count_0 > count_1 then CHR ''0''
         else if count_1 > count_0 then CHR ''1''
         else CHR ''0'')"

text \<open>
  \<open>majority_vote_decode(encoded_bits, n)\<close>. The empty input raises ValueError;
  \<open>len(encoded_bits) % n\<close> raises ZeroDivisionError for \<open>n = 0\<close>; an input whose length
  is not a multiple of \<open>n\<close> is cut to \<open>(len // n) * n\<close> characters; the loop
  \<open>for i in range(0, len(encoded_bits), n)\<close> takes the slice \<open>encoded_bits[i:i+n]\<close>
  at the \<open>k\<close>-th of its \<open>ceil(len / n)\<close> rounds, with \<open>i = k * n\<close>.
\<close>

definition majority_vote_decode :: "string \<Rightarrow> nat \<Rightarrow> error + string" where
  "majority_vote_decode encoded_bits n =
     (if encoded_bits = [] then Inl ValueError
      else if n = 0 then Inl ZeroDivisionError
      else
        let encoded_bits' =
              (if length encoded_bits mod n \<noteq> 0
               then take ((length encoded_bits div n) * n) encoded_bits
               else encoded_bits)
        in Inr (map (\<lambda>k. vote (take n (drop (k * n) encoded_bits')))
                    [0 ..< (length encoded_bits' + n - 1) div n]))"

section \<open>Inverse-CDF sampling (ori/new\_src/byteSource.py, ori/new\_src/channel.py)\<close>

text \<open>
  The probabilities are floating-point numbers in the source. Sampling only compares and
  adds them, so the model takes them from any linearly ordered type with an addition; the
  uniform draws of \<open>np.random.uniform\<close> are an argument.

  \<open>np.cumsum\<close>: the running sums, the first one being the first element itself.
\<close>

fun cumsum_from :: "'a::plus \<Rightarrow> 'a list \<Rightarrow> 'a list" where
  "cumsum_from acc [] = []"
| "cumsum_from acc (x # xs) = (acc + x) # cumsum_from (acc + x) xs"

fun cumsum :: "'a::plus list \<Rightarrow> 'a list" where
  "cumsum [] = []"
| "cumsum (x # xs) = x # cumsum_from x xs"

text \<open>
  \<open>np.searchsorted(a, v, side)\<close> on an ascending array \<open>a\<close>: the number of entries
  below \<open>v\<close> (\<open>side='left'\<close>, the default) or not above it (\<open>side='right'\<close>), as an
  integer of numpy's index type.
\<close>

definition searchsorted_left :: "'a::linorder list \<Rightarrow> 'a \<Rightarrow> int" where
  "searchsorted_left a v = int (length (filter (\<lambda>c. c < v) a))"


text \<open>\<open>.astype(np.uint8)\<close> on an integer array keeps the low eight bits.\<close>

definition astype_uint8 :: "int \<Rightarrow> 8 word" where
  "astype_uint8 m = word_of_int m"

text \<open>\<open>np.clip(m, lo, hi)\<close> on one element.\<close>

definition clip :: "int \<Rightarrow> int \<Rightarrow> int \<Rightarrow> int" where
  "clip m lo hi = min (max m lo) hi"

text \<open>\<open>byteSource.generate_msg\<close>, the draws given, and the bytes \<open>write_output\<close> writes.\<close>

definition generate_msg :: "'a::{linorder,plus} list \<Rightarrow> 'a list \<Rightarrow> int list" where
  "generate_msg symbol_prob symbol_random =
     (let cdf = cumsum symbol_prob in map (searchsorted_left cdf) symbol_random)"

definition write_output :: "int list \<Rightarrow> 8 word list" where
  "write_output msg = map (\<lambda>m. astype_uint8 (clip m 0 255)) msg"



section \<open>Mutual information (ori/new\_src/channelIndexCalc.py)\<close>

text \<open>
  \<open>calculate_mutual_information\<close> works on floating-point numbers. The model keeps the
  arithmetic abstract: the entries come from any linearly ordered type with \<open>0\<close>,
  \<open>+\<close>, \<open>*\<close> and \<open>/\<close>, of which no law is assumed, and \<open>np.log2\<close> is the
  parameter \<open>log2\<close>. The matrix is the list of its rows.
\<close>

definition np_sum :: "'a::{zero,plus} list \<Rightarrow> 'a" where
  "np_sum xs = foldl (+) 0 xs"

definition sum_axis1 :: "'a::{zero,plus} list list \<Rightarrow> 'a list" where
  "sum_axis1 m = map np_sum m"

definition sum_axis0 :: "'a::{zero,plus} list list \<Rightarrow> 'a list" where
  "sum_axis0 m =
     (case m of [] \<Rightarrow> []
      | r # _ \<Rightarrow> map (\<lambda>j. np_sum (map (\<lambda>row. row ! j) m)) [0 ..< length r])"

text \<open>One round of the inner loop: the new value of \<open>mi\<close>.\<close>

definition mi_step ::
  "('a \<Rightarrow> 'a) \<Rightarrow> 'a::{linorder,zero,plus,times,inverse} list list \<Rightarrow> 'a list \<Rightarrow> 'a list
     \<Rightarrow> 'a \<Rightarrow> nat \<times> nat \<Rightarrow> 'a" where
  "mi_step log2 t p_x p_y mi ij =
     (case ij of (i, j) \<Rightarrow>
        if t ! i ! j > 0 then
          if p_x ! i > 0 \<and> p_y ! j > 0 then
            let ratio = t ! i ! j / (p_x ! i * p_y ! j)
            in if ratio > 0 then mi + t ! i ! j * log2 ratio else mi
          else mi
        else mi)"

definition mi_sum ::
  "('a \<Rightarrow> 'a) \<Rightarrow> 'a::{linorder,zero,plus,times,inverse} list list \<Rightarrow> 'a" where
  "mi_sum log2 t =
     (let p_x = sum_axis1 t; p_y = sum_axis0 t
      in foldl (mi_step log2 t p_x p_y) 0
           (concat (map (\<lambda>i. map (\<lambda>j. (i, j)) [0 ..< length p_y]) [0 ..< length p_x])))"

definition calculate_mutual_information ::
  "('a \<Rightarrow> 'a) \<Rightarrow> 'a::{linorder,zero,plus,times,inverse} list list \<Rightarrow> 'a" where
  "calculate_mutual_information log2 transition_probabilities =
     (let mi = mi_sum log2 transition_probabilities
      in if mi < 0 then 0 else mi)"

section \<open>Python integers and byte arrays\<close>

text \<open>
  Bytes are natural numbers below 256. \<open>to_le n v\<close> is the \<open>n\<close> low base-256 digits of
  \<open>v\<close>, lowest first; \<open>v.to_bytes(n, 'little')\<close> returns them when \<open>v\<close> fits and raises
  OverflowError otherwise; \<open>int.from_bytes(bs, 'little')\<close> reads them back.
\<close>

fun to_le :: "nat \<Rightarrow> nat \<Rightarrow> nat list" where
  "to_le 0 v = []"
| "to_le (Suc n) v = (v mod 256) # to_le n (v div 256)"

definition to_bytes :: "nat \<Rightarrow> nat \<Rightarrow> error + nat list" where
  "to_bytes v n = (if v < 256 ^ n then Inr (to_le n v) else Inl OverflowError)"

fun from_bytes :: "nat list \<Rightarrow> nat" where
  "from_bytes [] = 0"
| "from_bytes (b # bs) = b + 256 * from_bytes bs"

text \<open>\<open>bytearray.append(x)\<close> raises ValueError unless \<open>0 <= x < 256\<close>.\<close>

definition append_byte :: "nat list \<Rightarrow> int \<Rightarrow> error + nat list" where
  "append_byte header x =
     (if 0 \<le> x \<and> x < 256 then Inr (header @ [nat x]) else Inl ValueError)"

section \<open>The prefix codec (module dahuffman\_no\_EOF, imported by both programs)\<close>

text \<open>
  A code table is the Python dictionary from a symbol to the pair of the bit length and the
  value of its code, as an association list in insertion order.
\<close>

type_synonym code_table = "(nat \<times> nat \<times> nat) list"

datatype tree = Leaf nat | Node tree tree

text \<open>
  Modelled from the spec: the class \<open>HuffmanCodec\<close> of the module \<open>dahuffman_no_EOF\<close>,
  whose file is not among the sources. The spec (section 4.2) has the table built by the
  standard construction: repeatedly merge the two nodes of lowest probability into a
  parent, assign 0 and 1 to the two branches, the bit length of a code being the depth of
  its leaf. The nodes are kept in ascending order of weight; the weights are the
  floating-point probabilities of the PMF, of which only the order and the sum are used.
\<close>

fun merge_nodes :: "('w::{linorder,plus} \<times> tree) list \<Rightarrow> ('w \<times> tree) list" where
  "merge_nodes ((wa, a) # (wb, b) # heap) =
     merge_nodes (insort_key fst (wa + wb, Node a b) heap)"
| "merge_nodes heap = heap"

text \<open>
  Modelled from the spec: the code of each leaf, the bit of the branch at the root first,
  0 for the first of the two merged nodes and 1 for the second.
\<close>

fun codes :: "tree \<Rightarrow> (nat \<times> bool list) list" where
  "codes (Leaf s) = [(s, [])]"
| "codes (Node l r) =
     map (\<lambda>(s, p). (s, False # p)) (codes l) @ map (\<lambda>(s, p). (s, True # p)) (codes r)"

text \<open>
  Modelled from the spec: the code value of the data model (section 3) is the number whose
  binary digits are the bits of the code, the first bit the most significant.
\<close>

definition value_of_bits :: "bool list \<Rightarrow> nat" where
  "value_of_bits p = foldl (\<lambda>buffer b. 2 * buffer + (if b then 1 else 0)) 0 p"

definition table_of_tree :: "tree \<Rightarrow> code_table" where
  "table_of_tree t = map (\<lambda>(s, p). (s, (length p, value_of_bits p))) (codes t)"

text \<open>
  Modelled from the spec: \<open>HuffmanCodec.from_frequencies\<close>. A codec is its code table;
  \<open>HuffmanCodec(code_table)\<close>, as the decoder calls it, is the table itself. A single
  symbol gets the code of length 0 that the encoder's comment speaks of.
\<close>

definition from_frequencies :: "(nat \<times> 'w::{linorder,plus}) list \<Rightarrow> code_table" where
  "from_frequencies frequencies =
     (case merge_nodes (sort_key fst (map (\<lambda>(s, f). (f, Leaf s)) frequencies)) of
        [] \<Rightarrow> []
      | (w, t) # _ \<Rightarrow> table_of_tree t)"

text \<open>
  Modelled from the spec: \<open>get_code_table\<close> hands out the codec's own table, so that the
  code the encoder forces for a degenerate source is the code the payload is written with
  (section 4.2: the coder forces a 1-bit code so that the format carries at least one
  payload bit per encoded symbol).
\<close>

definition get_code_table :: "code_table \<Rightarrow> code_table" where
  "get_code_table codec = codec"

text \<open>The \<open>n\<close> low binary digits of \<open>v\<close>, the most significant first.\<close>

fun bits_msb :: "nat \<Rightarrow> nat \<Rightarrow> bool list" where
  "bits_msb 0 v = []"
| "bits_msb (Suc n) v = odd (v div 2 ^ n) # bits_msb n v"

text \<open>
  Modelled from the spec: \<open>codec.encode\<close>. The payload is the concatenated bitstream of
  the codes of the message's symbols, packed into bytes, the last byte padded with zero
  bits. The spec leaves the order of the bits within a byte open and asks that both sides
  agree: here the first bit is the most significant, in \<open>pack_bits\<close> and in
  \<open>unpack_bits\<close>. A symbol without a code raises KeyError.
\<close>

fun encode_bits :: "code_table \<Rightarrow> nat list \<Rightarrow> error + bool list" where
  "encode_bits ct [] = Inr []"
| "encode_bits ct (s # data) =
     (case map_of ct s of
        None \<Rightarrow> Inl KeyError
      | Some (bits, v) \<Rightarrow>
          (case encode_bits ct data of
             Inl e \<Rightarrow> Inl e
           | Inr bs \<Rightarrow> Inr (bits_msb bits v @ bs)))"

fun pack_bits :: "bool list \<Rightarrow> nat list" where
  "pack_bits bs =
     (if bs = [] then []
      else value_of_bits (take 8 (bs @ replicate 7 False)) # pack_bits (drop 8 bs))"

declare pack_bits.simps [simp del]

definition unpack_bits :: "nat list \<Rightarrow> bool list" where
  "unpack_bits payload = concat (map (bits_msb 8) payload)"

definition codec_encode :: "code_table \<Rightarrow> nat list \<Rightarrow> error + nat list" where
  "codec_encode codec data =
     (case encode_bits codec data of
        Inl e \<Rightarrow> Inl e
      | Inr bs \<Rightarrow> Inr (pack_bits bs))"

text \<open>
  Modelled from the spec: \<open>codec.decode\<close> walks the payload bitstream and emits one symbol
  per matched code; an unknown code, that is a run of bits that begins no code of the
  table, is rejected as an undecodable bitstream (section 4.2). \<open>sz\<close> and \<open>buffer\<close>
  are the number and the value of the bits read since the last symbol.
\<close>

definition lookup_code :: "code_table \<Rightarrow> nat \<times> nat \<Rightarrow> nat option" where
  "lookup_code ct bv = map_of (map (\<lambda>(s, c). (c, s)) ct) bv"

definition is_code_prefix :: "code_table \<Rightarrow> nat \<Rightarrow> nat \<Rightarrow> bool" where
  "is_code_prefix ct sz buffer =
     list_ex (\<lambda>(s, (bits, v)). sz \<le> bits \<and> v div 2 ^ (bits - sz) = buffer) ct"

fun decode_walk :: "code_table \<Rightarrow> nat \<Rightarrow> nat \<Rightarrow> bool list \<Rightarrow> error + nat list" where
  "decode_walk ct sz buffer [] = Inr []"
| "decode_walk ct sz buffer (b # bs) =
     (let buffer' = 2 * buffer + (if b then 1 else 0);
          sz' = sz + 1
      in case lookup_code ct (sz', buffer') of
           Some symbol \<Rightarrow>
             (case decode_walk ct 0 0 bs of
                Inl e \<Rightarrow> Inl e
              | Inr out \<Rightarrow> Inr (symbol # out))
         | None \<Rightarrow>
             if is_code_prefix ct sz' buffer' then decode_walk ct sz' buffer' bs
             else Inl UndecodableBitstream)"

definition codec_decode :: "code_table \<Rightarrow> nat list \<Rightarrow> error + nat list" where
  "codec_decode codec payload = decode_walk codec 0 0 (unpack_bits payload)"

section \<open>The source encoder (src/source\_encoder.py)\<close>

text \<open>
  The rows of the 256-symbol PMF file, read into the dictionary \<open>frequencies\<close>: a row
  with a positive probability sets the entry of its symbol. The symbols are natural
  numbers; the probabilities are floating-point numbers, taken from any linearly ordered
  type with \<open>0\<close> and \<open>+\<close>. The expansion of a two-line PMF file into a 256-symbol file
  happens before and is not part of the model.
\<close>

definition read_frequencies :: "(nat \<times> 'w::{linorder,zero}) list \<Rightarrow> (nat \<times> 'w) list" where
  "read_frequencies rows =
     foldl (\<lambda>frequencies (symbol, prob).
              if prob > 0 then AList.update symbol prob frequencies else frequencies)
           [] rows"

text \<open>The special case of the degenerate source: a table of one symbol whose code has length 0.\<close>

definition force_degenerate :: "code_table \<Rightarrow> code_table" where
  "force_degenerate code_table =
     (if length code_table = 1 then
        (case code_table of
           (symbol, (bits, v)) # _ \<Rightarrow>
             if bits = 0 then AList.update symbol (1, 0) code_table else code_table
         | [] \<Rightarrow> code_table)
      else code_table)"

text \<open>
  The loop over \<open>sorted(code_table.keys())\<close> that appends, for each symbol, the symbol,
  the bit length and the \<open>(bits + 7) // 8\<close> bytes of the code value.
\<close>

fun header_entries :: "code_table \<Rightarrow> nat list \<Rightarrow> nat list \<Rightarrow> error + nat list" where
  "header_entries code_table [] header = Inr header"
| "header_entries code_table (symbol # symbols) header =
     (case map_of code_table symbol of
        None \<Rightarrow> Inl KeyError
      | Some (bits, v) \<Rightarrow>
          let bytes_needed = (bits + 7) div 8
          in case append_byte header (int symbol) of
               Inl e \<Rightarrow> Inl e
             | Inr header1 \<Rightarrow>
                 (case append_byte header1 (int bits) of
                    Inl e \<Rightarrow> Inl e
                  | Inr header2 \<Rightarrow>
                      (case to_bytes v bytes_needed of
                         Inl e \<Rightarrow> Inl e
                       | Inr value_bytes \<Rightarrow>
                           header_entries code_table symbols (header2 @ value_bytes))))"

text \<open>The header with its two-byte size in front, then the blob as it is written.\<close>

definition build_header :: "code_table \<Rightarrow> nat \<Rightarrow> error + nat list" where
  "build_header code_table original_len =
     (case append_byte [] (int (length code_table) - 1) of
        Inl e \<Rightarrow> Inl e
      | Inr header0 \<Rightarrow>
          (case to_bytes original_len 4 of
             Inl e \<Rightarrow> Inl e
           | Inr len_bytes \<Rightarrow>
               (case header_entries code_table (sort (map fst code_table))
                       (header0 @ len_bytes) of
                  Inl e \<Rightarrow> Inl e
                | Inr header \<Rightarrow>
                    let header_size = length header + 2
                    in case to_bytes header_size 2 of
                         Inl e \<Rightarrow> Inl e
                       | Inr size_bytes \<Rightarrow> Inr (size_bytes @ header))))"

definition write_blob :: "code_table \<Rightarrow> nat \<Rightarrow> nat list \<Rightarrow> error + nat list" where
  "write_blob code_table original_len encoded_payload =
     (case build_header code_table original_len of
        Inl e \<Rightarrow> Inl e
      | Inr full_header \<Rightarrow> Inr (full_header @ encoded_payload))"

text \<open>
  \<open>main\<close> of the encoder from the reading of the frequencies on: the result is the
  content of the output file, or the error the program stops with.
\<close>

definition source_encoder ::
  "(nat \<times> 'w::{linorder,zero,plus}) list \<Rightarrow> nat list \<Rightarrow> error + nat list" where
  "source_encoder rows data =
     (let frequencies = read_frequencies rows
      in if frequencies = [] then Inl NoValidSymbols
         else
           let codec = from_frequencies frequencies;
               original_len = length data
           in if original_len = 0 then Inl InputEmpty
              else
                let code_table = force_degenerate (get_code_table codec)
                in case codec_encode code_table data of
                     Inl e \<Rightarrow> Inl EncodingFailed
                   | Inr encoded_payload \<Rightarrow> write_blob code_table original_len encoded_payload)"

section \<open>The source decoder (src/source\_decoder.py)\<close>

text \<open>
  The loop that rebuilds the code table: \<open>n\<close> entries are still to be read at \<open>pos\<close>.
  Reading \<open>header[pos]\<close> or \<open>header[pos + 1]\<close> past the end raises IndexError; the slice
  of the value bytes is cut at the end of the header.
\<close>

fun parse_code_table :: "nat list \<Rightarrow> nat \<Rightarrow> nat \<Rightarrow> code_table \<Rightarrow> error + code_table" where
  "parse_code_table header 0 pos code_table = Inr code_table"
| "parse_code_table header (Suc n) pos code_table =
     (if length header \<le> pos + 1 then Inl IndexError
      else
        let symbol = header ! pos;
            bits = header ! (pos + 1);
            pos' = pos + 2;
            bytes_needed = (bits + 7) div 8;
            v = from_bytes (take bytes_needed (drop pos' header))
        in parse_code_table header n (pos' + bytes_needed)
             (AList.update symbol (bits, v) code_table))"

text \<open>The decoding of a blob already split into header and payload.\<close>

definition normal_decode :: "code_table \<Rightarrow> nat \<Rightarrow> nat list \<Rightarrow> error + nat list" where
  "normal_decode code_table original_len payload =
     (case codec_decode code_table payload of
        Inl e \<Rightarrow> Inl e
      | Inr decoded \<Rightarrow> Inr (take original_len decoded))"

definition decode_parts :: "nat list \<Rightarrow> nat list \<Rightarrow> error + nat list" where
  "decode_parts header payload =
     (if header = [] then Inl IndexError
      else
        let symbol_count = header ! 0 + 1;
            original_len = from_bytes (take 4 (drop 1 header))
        in case parse_code_table header symbol_count 5 [] of
             Inl e \<Rightarrow> Inl e
           | Inr code_table \<Rightarrow>
               if length code_table = 1 then
                 (case code_table of
                    (symbol, (bits, v)) # _ \<Rightarrow>
                      if bits \<le> 1 then Inr (replicate original_len symbol)
                      else normal_decode code_table original_len payload
                  | [] \<Rightarrow> normal_decode code_table original_len payload)
               else normal_decode code_table original_len payload)"

text \<open>
  \<open>main\<close> of the decoder on the content of the input file: the result is the content of
  the recovered file, or the error the program stops with.
\<close>

definition source_decoder :: "nat list \<Rightarrow> error + nat list" where
  "source_decoder data =
     (if length data < 6 then Inl FileTooShort
      else
        let header_size = from_bytes (take 2 data);
            header = take (header_size - 2) (drop 2 data);
            payload = drop header_size data
        in decode_parts header payload)"

section \<open>Properties of the repetition code\<close>

lemma count_list_replicate_eq: "count_list (replicate n x) y = (if x = y then n else 0)"
  by (induction n) auto

lemma count_list_two:
  "set g \<subseteq> {a, b} \<Longrightarrow> a \<noteq> b \<Longrightarrow> count_list g a + count_list g b = length g"
  by (induction g) auto

lemma vote_bit: "vote g = CHR ''0'' \<or> vote g = CHR ''1''"
  by (simp add: vote_def Let_def)

lemma vote_replicate:
  "c = CHR ''0'' \<or> c = CHR ''1'' \<Longrightarrow> 0 < n \<Longrightarrow> vote (replicate n c) = c"
  by (auto simp: vote_def Let_def count_list_replicate_eq)

lemma groups_of_prefix:
  "k < m \<Longrightarrow> take 3 (drop (k * 3) (take (m * 3) s)) = take 3 (drop (k * 3) s)"
  by (simp add: drop_take min_def)

lemma majority_vote_decode_3:
  assumes "s \<noteq> []"
  shows "majority_vote_decode s 3 =
           Inr (map (\<lambda>k. vote (take 3 (drop (k * 3) s))) [0 ..< length s div 3])"
proof -
  define m where "m = length s div 3"
  define s' where "s' = (if length s mod 3 \<noteq> 0 then take (m * 3) s else s)"
  have "m * 3 \<le> length s" "length s mod 3 = 0 \<Longrightarrow> length s = m * 3"
    unfolding m_def by presburger+
  then have len: "length s' = m * 3"
    unfolding s'_def by auto
  then have n: "(length s' + 3 - 1) div 3 = m" by simp
  have s': "s' = take (m * 3) s"
    using \<open>length s mod 3 = 0 \<Longrightarrow> length s = m * 3\<close> unfolding s'_def by auto
  have "majority_vote_decode s 3 =
          Inr (map (\<lambda>k. vote (take 3 (drop (k * 3) s'))) [0 ..< (length s' + 3 - 1) div 3])"
    using assms unfolding majority_vote_decode_def s'_def m_def Let_def by simp
  also have "\<dots> = Inr (map (\<lambda>k. vote (take 3 (drop (k * 3) s'))) [0 ..< m])"
    by (simp only: n)
  also have "\<dots> = Inr (map (\<lambda>k. vote (take 3 (drop (k * 3) s))) [0 ..< m])"
    unfolding s' by (simp add: groups_of_prefix)
  finally show ?thesis unfolding m_def .
qed

lemma groups_concat_replicate:
  "0 < n \<Longrightarrow> map (\<lambda>k. take n (drop (k * n) (concat (map (replicate n) s)))) [0 ..< length s]
     = map (replicate n) s"
proof (induction s)
  case Nil
  then show ?case by simp
next
  case (Cons a s)
  have "[0 ..< length (a # s)] = 0 # map Suc [0 ..< length s]"
    by (simp add: upt_conv_Cons map_Suc_upt del: upt_Suc)
  with Cons show ?case by (simp add: o_def)
qed

text \<open>
  Claim C4. For every non-empty string \<open>s\<close> over the characters \<open>0\<close> and \<open>1\<close>,
  \<open>encode_bit_string\<close> (with the encoder's \<open>N = 3\<close>) returns a string, and
  \<open>majority_vote_decode\<close> of that string with \<open>n = 3\<close> returns \<open>s\<close> itself.
\<close>

theorem repetition_roundtrip:
  assumes "s \<noteq> []" and "set s \<subseteq> {CHR ''0'', CHR ''1''}"
  shows "\<exists>e. encode_bit_string repetition_N s = Inr e \<and> majority_vote_decode e 3 = Inr s"
proof -
  let ?e = "concat (map (replicate 3) s)"
  have enc: "encode_bit_string repetition_N s = Inr ?e"
    using assms by (auto simp: encode_bit_string_def validate_bit_string_def repetition_N_def list_all_iff)
  have len: "length ?e = 3 * length s"
    by (induction s) simp_all
  have ne: "?e \<noteq> []" using assms(1) len by (metis length_0_conv mult_is_0 zero_neq_numeral)
  have "map (\<lambda>k. vote (take 3 (drop (k * 3) ?e))) [0 ..< length s] = map vote (map (replicate 3) s)"
    using arg_cong [OF groups_concat_replicate [of 3 s], of "map vote"] by (simp add: o_def)
  also have "\<dots> = s"
    using assms(2) by (induction s) (auto simp: vote_replicate simp del: replicate.simps)
  finally have "majority_vote_decode ?e 3 = Inr s"
    using majority_vote_decode_3 [OF ne] len by simp
  with enc show ?thesis by blast
qed


theorem repetition_roundtrip_witness:
  "''101'' \<noteq> [] \<and> set ''101'' \<subseteq> {CHR ''0'', CHR ''1''} \<and>
   encode_bit_string repetition_N ''101'' = Inr ''111000111'' \<and>
   majority_vote_decode ''111000111'' 3 = Inr ''101''"
  using repetition_roundtrip [of "''101''"]
  by (simp add: encode_bit_string_def validate_bit_string_def repetition_N_def eval_nat_numeral)

text \<open>
  Claim C5. For every non-empty bit string \<open>s\<close>, \<open>majority_vote_decode s 3\<close> returns one
  character for each of the \<open>length s div 3\<close> consecutive groups of three characters:
  \<open>1\<close> exactly when the group holds more \<open>1\<close> than \<open>0\<close>, \<open>0\<close> exactly when it
  holds more \<open>0\<close> than \<open>1\<close>, and \<open>0\<close> on a tie. The characters after the last
  complete group play no part: the result is that of the input cut to a multiple of three
  (the empty result when no group is complete).
\<close>

theorem majority_vote_decode_groups:
  assumes "s \<noteq> []" and "set s \<subseteq> {CHR ''0'', CHR ''1''}"
  shows "\<exists>out. majority_vote_decode s 3 = Inr out \<and> length out = length s div 3 \<and>
           (\<forall>k < length s div 3.
              let g = take 3 (drop (3 * k) s);
                  ones = count_list g (CHR ''1'');
                  zeros = count_list g (CHR ''0'')
              in (out ! k = CHR ''1'' \<longleftrightarrow> ones > zeros) \<and>
                 (out ! k = CHR ''0'' \<longleftrightarrow> zeros > ones) \<and>
                 (zeros = ones \<longrightarrow> out ! k = CHR ''0'')) \<and>
           majority_vote_decode s 3 =
             (if length s < 3 then Inr []
              else majority_vote_decode (take (3 * (length s div 3)) s) 3)"
proof -
  let ?out = "map (\<lambda>k. vote (take 3 (drop (k * 3) s))) [0 ..< length s div 3]"
  have dec: "majority_vote_decode s 3 = Inr ?out"
    by (rule majority_vote_decode_3 [OF assms(1)])
  have votes: "let g = take 3 (drop (3 * k) s);
                   ones = count_list g (CHR ''1'');
                   zeros = count_list g (CHR ''0'')
               in (?out ! k = CHR ''1'' \<longleftrightarrow> ones > zeros) \<and>
                  (?out ! k = CHR ''0'' \<longleftrightarrow> zeros > ones) \<and>
                  (zeros = ones \<longrightarrow> ?out ! k = CHR ''0'')"
    if k: "k < length s div 3" for k
  proof -
    let ?g = "take 3 (drop (3 * k) s)"
    have "3 * k + 3 \<le> length s" using k by presburger
    then have len: "length ?g = 3" by simp
    have "set ?g \<subseteq> {CHR ''0'', CHR ''1''}"
      using assms(2) by (meson order_trans set_drop_subset set_take_subset)
    then have "count_list ?g (CHR ''0'') + count_list ?g (CHR ''1'') = 3"
      using count_list_two [of ?g "CHR ''0''" "CHR ''1''"] len by simp
    then have "count_list ?g (CHR ''0'') \<noteq> count_list ?g (CHR ''1'')" by presburger
    moreover have "?out ! k = vote ?g" using k by (simp add: mult.commute)
    ultimately show ?thesis by (auto simp: vote_def Let_def)
  qed
  have cut: "majority_vote_decode s 3 =
               (if length s < 3 then Inr []
                else majority_vote_decode (take (3 * (length s div 3)) s) 3)"
  proof (cases "length s < 3")
    case True
    then show ?thesis using dec by simp
  next
    case False
    let ?t = "take (3 * (length s div 3)) s"
    have le: "3 * (length s div 3) \<le> length s" by presburger
    have pos: "0 < length s div 3" using False by presburger
    then have ne: "?t \<noteq> []" using assms(1) by simp
    have lt: "length ?t div 3 = length s div 3" using le by simp
    have "majority_vote_decode ?t 3 =
            Inr (map (\<lambda>k. vote (take 3 (drop (k * 3) ?t))) [0 ..< length s div 3])"
      using majority_vote_decode_3 [OF ne] unfolding lt .
    also have "\<dots> = Inr ?out"
      using groups_of_prefix [of _ "length s div 3" s] by (simp add: mult.commute)
    finally show ?thesis using dec False by simp
  qed
  show ?thesis using dec votes cut by (intro exI [of _ ?out]) simp
qed

theorem majority_vote_decode_groups_witness:
  "''11010'' \<noteq> [] \<and> set ''11010'' \<subseteq> {CHR ''0'', CHR ''1''} \<and>
   majority_vote_decode ''11010'' 3 = Inr ''1'' \<and>
   majority_vote_decode ''11010'' 3 = majority_vote_decode ''110'' 3"
  using majority_vote_decode_groups [of "''11010''"]
  by (simp add: majority_vote_decode_def vote_def)

text \<open>
  Claim C10. For every non-empty string \<open>s\<close> (over \<open>0\<close> and \<open>1\<close> or not),
  \<open>majority_vote_decode s 3\<close> returns a string of exactly \<open>length s div 3\<close>
  characters, each of them \<open>0\<close> or \<open>1\<close>.
\<close>

theorem majority_vote_decode_length:
  assumes "s \<noteq> []"
  shows "\<exists>out. majority_vote_decode s 3 = Inr out \<and> length out = length s div 3 \<and>
           set out \<subseteq> {CHR ''0'', CHR ''1''}"
proof -
  let ?out = "map (\<lambda>k. vote (take 3 (drop (k * 3) s))) [0 ..< length s div 3]"
  have "majority_vote_decode s 3 = Inr ?out"
    by (rule majority_vote_decode_3 [OF assms])
  moreover have "set ?out \<subseteq> {CHR ''0'', CHR ''1''}"
    using vote_bit by auto
  ultimately show ?thesis by simp
qed

theorem majority_vote_decode_length_witness:
  "''0111'' \<noteq> [] \<and> majority_vote_decode ''0111'' 3 = Inr ''1'' \<and>
   length ''1'' = length ''0111'' div 3"
  using majority_vote_decode_length [of "''0111''"]
  by (simp add: majority_vote_decode_def vote_def)

section \<open>Properties of the samplers\<close>

lemma clip_range: "0 \<le> clip m 0 255 \<and> clip m 0 255 \<le> 255"
  by (simp add: clip_def)

lemma write_output_clamps:
  "write_output (generate_msg p us) =
     map (\<lambda>u. word_of_int (min (max (searchsorted_left (cumsum p) u) 0) 255)) us"
  by (simp add: write_output_def generate_msg_def astype_uint8_def clip_def)






section \<open>Properties of the mutual information\<close>

text \<open>
  Claim C9. Whatever the matrix and whatever \<open>log2\<close> computes,
  \<open>calculate_mutual_information\<close> returns a value that is at least 0: a round of the
  loop whose joint-probability term is zero leaves the sum as it is, and a negative sum is
  returned as 0.
\<close>

theorem mutual_information_nonneg:
  "0 \<le> calculate_mutual_information log2 t \<and>
   (\<forall>p_x p_y mi i j. t ! i ! j = 0 \<longrightarrow> mi_step log2 t p_x p_y mi (i, j) = mi) \<and>
   (mi_sum log2 t < 0 \<longrightarrow> calculate_mutual_information log2 t = 0)"
  by (simp add: calculate_mutual_information_def mi_step_def Let_def not_less)

theorem mutual_information_nonneg_witness:
  "0 \<le> calculate_mutual_information (\<lambda>x. x - 2) [[1 / 2, 0], [0, 1 / 2 :: rat]] \<and>
   [[1 / 2, 0], [0, 1 / 2 :: rat]] ! 0 ! 1 = 0 \<and>
   mi_step (\<lambda>x. x - 2) [[1 / 2, 0], [0, 1 / 2 :: rat]] [1 / 2, 1 / 2] [1 / 2, 1 / 2] 1 (0, 1) = 1 \<and>
   mi_sum (\<lambda>x. x - 2) [[1 / 4, 1 / 4], [1 / 4, 1 / 4 :: rat]] < 0 \<and>
   calculate_mutual_information (\<lambda>x. x - 2) [[1 / 4, 1 / 4], [1 / 4, 1 / 4 :: rat]] = 0"
  using mutual_information_nonneg [of "\<lambda>x. x - 2" "[[1 / 2, 0], [0, 1 / 2 :: rat]]"]
    mutual_information_nonneg [of "\<lambda>x. x - 2" "[[1 / 4, 1 / 4], [1 / 4, 1 / 4 :: rat]]"]
  by (simp add: mi_sum_def mi_step_def sum_axis0_def sum_axis1_def np_sum_def)


end
